theory Spec2Isabelle
  imports Complex_Main
begin

section \<open>The Bravais lattice of lattpy/base.py\<close>

text \<open>
  A shallow embedding of the class \<open>BravaisLattice\<close> (src/lattpy/base.py): the atomic basis,
  the discovery of the distance shells, the table of neighbours and its queries.

  Conventions of the embedding.
  \<^item> Real-space coordinates and distances are \<open>real\<close>: the arithmetic of the embedding is
    exact, and the properties below are those that do not depend on how floating-point
    arithmetic rounds. Translation vectors, which the code holds as integral values, are
    \<open>int list\<close>; the shape of an array is the length of its list.
  \<^item> An exception is a value of \<open>error\<close>; a method that mutates the lattice returns the
    state it leaves behind together with its outcome, also when it raises.
  \<^item> Atom indices and shell indices are Python integers and subscripting follows
    Python (\<open>py_get\<close>): a negative index counts from the end.
\<close>

subsection \<open>Errors and Python subscripting\<close>

text \<open>
  \<open>ConfigurationError msg hint\<close> is the class of that name of lattpy/utils.py;
  \<open>DuplicatePosition\<close> is the \<open>ValueError\<close> raised by \<open>add_atom\<close>, \<open>NotInList\<close> the
  \<open>ValueError\<close> of \<open>list.remove\<close>, \<open>ShapeMismatch\<close> the \<open>ValueError\<close> numpy raises
  when two shapes do not fit, \<open>IndexError\<close> the Python exception of that name.
\<close>

datatype error =
    ConfigurationError string string
  | DuplicatePosition "real list"
  | NotInList
  | ShapeMismatch
  | IndexError

fun is_configuration_error :: "error \<Rightarrow> bool" where
  "is_configuration_error (ConfigurationError m h) = True"
| "is_configuration_error e = False"

text \<open>\<open>xs[i]\<close>: an index below zero is taken from the end of the list.\<close>

definition py_get :: "'a list \<Rightarrow> int \<Rightarrow> error + 'a" where
  "py_get xs i =
     (if 0 \<le> i \<and> i < int (length xs) then Inr (xs ! nat i)
      else if i < 0 \<and> - int (length xs) \<le> i then Inr (xs ! nat (int (length xs) + i))
      else Inl IndexError)"

text \<open>\<open>range(k)\<close> for a length \<open>k\<close>.\<close>

definition py_range :: "nat \<Rightarrow> int list" where
  "py_range k = map int [0..<k]"

text \<open>\<open>xs.remove(x)\<close>: removes the first element equal to \<open>x\<close>, raises when there is none.\<close>

definition py_remove :: "'a \<Rightarrow> 'a list \<Rightarrow> error + 'a list" where
  "py_remove x xs = (if x \<in> set xs then Inr (remove1 x xs) else Inl NotInList)"

text \<open>A loop that calls a fallible function on each element and stops at the first raise.\<close>

fun mapE :: "('a \<Rightarrow> error + 'b) \<Rightarrow> 'a list \<Rightarrow> error + 'b list" where
  "mapE f [] = Inr []"
| "mapE f (x # xs) =
     (case f x of
        Inl e \<Rightarrow> Inl e
      | Inr y \<Rightarrow> (case mapE f xs of Inl e \<Rightarrow> Inl e | Inr ys \<Rightarrow> Inr (y # ys)))"

text \<open>A loop that appends the elements passing a fallible test.\<close>

fun filterE :: "('a \<Rightarrow> error + bool) \<Rightarrow> 'a list \<Rightarrow> error + 'a list" where
  "filterE p [] = Inr []"
| "filterE p (x # xs) =
     (case p x of
        Inl e \<Rightarrow> Inl e
      | Inr b \<Rightarrow> (case filterE p xs of
                   Inl e \<Rightarrow> Inl e
                 | Inr ys \<Rightarrow> Inr (if b then x # ys else ys)))"

subsection \<open>The numpy operations the class uses\<close>

text \<open>\<open>np.arange(a, b)\<close> on integral bounds: \<open>a, a + 1, ..., b - 1\<close>.\<close>

definition arange :: "int \<Rightarrow> int \<Rightarrow> int list" where
  "arange a b = [a..b - 1]"

text \<open>
  An elementwise binary operation on one-dimensional arrays with numpy's broadcasting:
  equal shapes combine pointwise, a shape of one element is stretched, anything else raises.
\<close>

definition np_zip :: "('a \<Rightarrow> 'a \<Rightarrow> 'b) \<Rightarrow> 'a list \<Rightarrow> 'a list \<Rightarrow> error + 'b list" where
  "np_zip f xs ys =
     (if length xs = length ys then Inr (map2 f xs ys)
      else if length xs = 1 then Inr (map (f (hd xs)) ys)
      else if length ys = 1 then Inr (map (\<lambda>x. f x (hd ys)) xs)
      else Inl ShapeMismatch)"

definition np_add :: "'a::plus list \<Rightarrow> 'a list \<Rightarrow> error + 'a list" where
  "np_add = np_zip (+)"

definition np_sub :: "'a::minus list \<Rightarrow> 'a list \<Rightarrow> error + 'a list" where
  "np_sub = np_zip (-)"

text \<open>\<open>A @ n\<close> for a matrix given by its rows and a vector of integral values.\<close>

definition matvec :: "real list list \<Rightarrow> int list \<Rightarrow> error + real list" where
  "matvec A n =
     (if list_all (\<lambda>row. length row = length n) A
      then Inr (map (\<lambda>row. sum_list (map2 (*) row (map of_int n))) A)
      else Inl ShapeMismatch)"

text \<open>\<open>np.rint\<close>: the nearest integer, a tie going to the even neighbour.\<close>

definition rint :: "real \<Rightarrow> int" where
  "rint x =
     (let f = \<lfloor>x\<rfloor>; d = x - of_int f
      in if d < 1 / 2 then f else if 1 / 2 < d then f + 1 else if even f then f else f + 1)"

text \<open>\<open>np.round(x, decimals=k)\<close>: scale by \<open>10 ^ k\<close>, round to an integer, scale back.\<close>

definition np_round :: "nat \<Rightarrow> real \<Rightarrow> real" where
  "np_round k x = of_int (rint (x * 10 ^ k)) / 10 ^ k"

text \<open>
  Modelled from the spec: \<open>utils.distance\<close> is imported by base.py and is not among the
  sources. The spec (section 4.4) calls it the Euclidean distance of two positions.
\<close>

definition distance :: "real list \<Rightarrow> real list \<Rightarrow> real" where
  "distance r1 r2 = sqrt (sum_list (map2 (\<lambda>a b. (a - b)\<^sup>2) r1 r2))"

text \<open>
  Modelled from the spec: \<open>utils.vrange\<close> is imported by base.py and is not among the
  sources. The spec (section 4.3, step 4, and section 4.4) has it enumerate every vector
  that takes its \<open>d\<close>-th coordinate from the \<open>d\<close>-th range. The order of the enumeration is
  not fixed by the spec: the theorems below speak of the set of the vectors only.
\<close>

definition vrange :: "int list list \<Rightarrow> int list list" where
  "vrange axis_ranges = product_lists axis_ranges"

subsection \<open>Atoms and the lattice\<close>

text \<open>
  \<open>Atom\<close>: name, colour and size (the free keyword arguments are not carried).
  \<open>Atom.COUNTER\<close> is a counter shared by all atoms: the constructor takes its value and
  returns the next one.
\<close>

record atom =
  name :: string
  col :: "string option"
  size :: int

function str_nat :: "nat \<Rightarrow> string" where
  "str_nat n =
     (if n < 10 then [char_of (48 + n)]
      else str_nat (n div 10) @ [char_of (48 + n mod 10)])"
  by pat_completeness auto
termination
  by (relation "measure id") auto

definition Atom_init :: "nat \<Rightarrow> string option \<Rightarrow> atom \<times> nat" where
  "Atom_init counter nm =
     (let idx = counter;
          nm' = (case nm of None \<Rightarrow> str_nat idx
                 | Some s \<Rightarrow> (if s = [] then str_nat idx else s))
      in (\<lparr>name = nm', col = None, size = 10\<rparr>, Suc counter))"

text \<open>
  The fields of \<open>BravaisLattice\<close> that the operations below read or write. An entry of
  \<open>base_neighbors\<close> is the list \<open>[*n, alpha]\<close>.
\<close>

record lattice =
  dim :: nat
  vectors :: "real list list"
  n_base :: nat
  atoms :: "atom list"
  atom_positions :: "real list list"
  n_dist :: int
  distances :: "real list"
  base_neighbors :: "int list list list list"

definition DIST_DECIMALS :: nat where
  "DIST_DECIMALS = 5"

definition MIN_DISTS :: int where
  "MIN_DISTS = 3"

text \<open>
  The shapes the class expects (the docstring of \<open>add_atom\<close>: the size of a position has
  to match the dimension of the lattice), and the counts kept by \<open>add_atom\<close>.
\<close>

definition well_shaped :: "lattice \<Rightarrow> bool" where
  "well_shaped L \<longleftrightarrow>
     length (vectors L) = dim L \<and>
     list_all (\<lambda>row. length row = dim L) (vectors L) \<and>
     list_all (\<lambda>p. length p = dim L) (atom_positions L) \<and>
     n_base L = length (atom_positions L) \<and>
     length (atoms L) = length (atom_positions L)"

subsection \<open>Positions\<close>

text \<open>\<open>get_position(n, alpha)\<close>.\<close>

definition get_position :: "lattice \<Rightarrow> int list option \<Rightarrow> int \<Rightarrow> error + real list" where
  "get_position L n alpha =
     (case py_get (atom_positions L) alpha of
        Inl e \<Rightarrow> Inl e
      | Inr r \<Rightarrow>
          (case n of
             None \<Rightarrow> Inr r
           | Some nv \<Rightarrow>
               (case matvec (vectors L) nv of
                  Inl e \<Rightarrow> Inl e
                | Inr t \<Rightarrow> np_add r t)))"

text \<open>\<open>self.distance(idx0, idx1)\<close> for two lattice indices.\<close>

definition site_distance ::
  "lattice \<Rightarrow> int list \<times> int \<Rightarrow> int list \<times> int \<Rightarrow> error + real" where
  "site_distance L idx0 idx1 =
     (case get_position L (Some (fst idx0)) (snd idx0) of
        Inl e \<Rightarrow> Inl e
      | Inr r1 \<Rightarrow>
          (case get_position L (Some (fst idx1)) (snd idx1) of
             Inl e \<Rightarrow> Inl e
           | Inr r2 \<Rightarrow> Inr (distance r1 r2)))"

subsection \<open>The neighbours of one site in one shell\<close>

text \<open>
  \<open>_neighbour_range(n, cell_range)\<close>: the candidates, cell by cell and atom by atom.
  Reading \<open>n[d]\<close> for \<open>d\<close> in \<open>range(dim)\<close> raises when \<open>n\<close> is shorter than \<open>dim\<close>.
\<close>

definition neighbour_range ::
  "lattice \<Rightarrow> int list option \<Rightarrow> int \<Rightarrow> error + (int list \<times> int) list" where
  "neighbour_range L n cell_range =
     (let nv = (case n of None \<Rightarrow> replicate (dim L) 0 | Some v \<Rightarrow> v);
          offset = cell_range + 2
      in case mapE (\<lambda>d. case py_get nv d of
                           Inl e \<Rightarrow> Inl e
                         | Inr c \<Rightarrow> Inr (arange (c - offset) (c + offset + 1)))
                   (py_range (dim L)) of
           Inl e \<Rightarrow> Inl e
         | Inr ranges \<Rightarrow> Inr (List.product (vrange ranges) (py_range (n_base L))))"

text \<open>
  \<open>calculate_neighbours(n, alpha, dist_idx, array=False)\<close>: the candidates whose distance
  to the site differs from the shell distance by a value that rounds to zero.
\<close>

definition calculate_neighbours ::
  "lattice \<Rightarrow> int list option \<Rightarrow> int \<Rightarrow> int \<Rightarrow> error + (int list \<times> int) list" where
  "calculate_neighbours L n alpha dist_idx =
     (let nv = (case n of None \<Rightarrow> replicate (dim L) 0 | Some v \<Rightarrow> v);
          idx = (nv, alpha)
      in case py_get (distances L) dist_idx of
           Inl e \<Rightarrow> Inl e
         | Inr shell \<Rightarrow>
             (case neighbour_range L (Some nv) dist_idx of
                Inl e \<Rightarrow> Inl e
              | Inr cands \<Rightarrow>
                  filterE (\<lambda>idx1. case site_distance L idx idx1 of
                                     Inl e \<Rightarrow> Inl e
                                   | Inr d \<Rightarrow> Inr (np_round DIST_DECIMALS \<bar>d - shell\<bar> = 0))
                          cands))"

text \<open>With \<open>array=True\<close> each accepted index \<open>(n, alpha)\<close> is stored as \<open>[*n, alpha]\<close>.\<close>

definition as_array :: "int list \<times> int \<Rightarrow> int list" where
  "as_array idx1 = fst idx1 @ [snd idx1]"

definition calculate_neighbours_array ::
  "lattice \<Rightarrow> int list option \<Rightarrow> int \<Rightarrow> int \<Rightarrow> error + int list list" where
  "calculate_neighbours_array L n alpha dist_idx =
     (case calculate_neighbours L n alpha dist_idx of
        Inl e \<Rightarrow> Inl e
      | Inr indices \<Rightarrow> Inr (map as_array indices))"

subsection \<open>The distance shells and the table of neighbours\<close>

text \<open>\<open>num_dist\<close> once its default is resolved (\<open>None\<close> stands for the number of atoms).\<close>

definition shell_count :: "lattice \<Rightarrow> int option \<Rightarrow> int" where
  "shell_count L num_dist = (case num_dist of None \<Rightarrow> int (length (atoms L)) | Some k \<Rightarrow> k)"

text \<open>The local \<open>n\<close> of \<open>calculate_distances\<close> (lines 337 and 338).\<close>

definition expansion :: "lattice \<Rightarrow> int option \<Rightarrow> int" where
  "expansion L num_dist = max (shell_count L num_dist + 1) MIN_DISTS"

text \<open>\<open>n_vecs\<close> (line 339): \<open>vrange(self.dim * [np.arange(-n, n)])\<close>.\<close>

definition cell_images :: "lattice \<Rightarrow> int \<Rightarrow> int list list" where
  "cell_images L n = vrange (replicate (dim L) (arange (- n) n))"

text \<open>\<open>r_vecs\<close> (lines 340 to 343): the position of every atom in every enumerated cell.\<close>

definition image_positions :: "lattice \<Rightarrow> int \<Rightarrow> error + real list list" where
  "image_positions L n =
     mapE (\<lambda>idx. get_position L (Some (fst idx)) (snd idx))
          (List.product (cell_images L n) (py_range (n_base L)))"

text \<open>
  The argument of \<open>set\<close> in line 345: the rounded distance of every pair of an image position
  and a position of the basis.
\<close>

definition rounded_distances :: "lattice \<Rightarrow> int \<Rightarrow> error + real list" where
  "rounded_distances L n =
     (case image_positions L n of
        Inl e \<Rightarrow> Inl e
      | Inr r_vecs \<Rightarrow>
          Inr (map (\<lambda>pr. np_round DIST_DECIMALS (distance (fst pr) (snd pr)))
                   (List.product r_vecs (atom_positions L))))"

text \<open>
  \<open>calculate_distances(num_dist)\<close>. The outcome is \<open>None\<close> for a normal return and the
  exception otherwise, with the lattice as the call leaves it. \<open>list(set(xs))\<close> followed by
  \<open>sort()\<close> is \<open>sort (remdups xs)\<close>; the slice \<open>[0:n - 1]\<close> has a positive bound, since
  \<open>n\<close> is at least \<open>MIN_DISTS\<close>.
\<close>

definition calculate_distances :: "lattice \<Rightarrow> int option \<Rightarrow> error option \<times> lattice" where
  "calculate_distances L num_dist =
     (if length (atoms L) = 0
      then (Some (ConfigurationError ''No atoms found in the lattice!''
                    ''Use 'add_atom' to add an 'Atom'-object''), L)
      else
        (let n = expansion L num_dist
         in case rounded_distances L n of
              Inl e \<Rightarrow> (Some e, L)
            | Inr rs \<Rightarrow>
                (case py_remove 0 (sort (remdups rs)) of
                   Inl e \<Rightarrow> (Some e, L)
                 | Inr ds \<Rightarrow>
                     (let L1 = L\<lparr>distances := take (nat (n - 1)) ds,
                                 n_dist := shell_count L num_dist\<rparr>
                      in case mapE (\<lambda>alpha.
                                     mapE (\<lambda>i_dist. calculate_neighbours_array L1 None alpha i_dist)
                                          (py_range (length (distances L1))))
                                   (py_range (n_base L1)) of
                           Inl e \<Rightarrow> (Some e, L1)
                         | Inr neighbours \<Rightarrow> (None, L1\<lparr>base_neighbors := neighbours\<rparr>)))))"

subsection \<open>Adding an atom\<close>

text \<open>
  \<open>np.all(pos == x)\<close>: the comparison is elementwise after broadcasting; two shapes that
  do not fit compare unequal.
\<close>

definition np_all_eq :: "real list \<Rightarrow> real list \<Rightarrow> bool" where
  "np_all_eq p x = (case np_zip (=) p x of Inl e \<Rightarrow> False | Inr bs \<Rightarrow> list_all id bs)"

text \<open>The argument \<open>atom\<close>: an \<open>Atom\<close>, or a name (or \<open>None\<close>) for a new one.\<close>

datatype atom_arg = AtomArg atom | NameArg "string option"

text \<open>
  \<open>add_atom(pos, atom, neighbours)\<close>, with the shared counter of \<open>Atom\<close> passed in and out.
\<close>

definition add_atom ::
  "lattice \<Rightarrow> nat \<Rightarrow> real list option \<Rightarrow> atom_arg \<Rightarrow> int \<Rightarrow> (error + atom) \<times> lattice \<times> nat" where
  "add_atom L counter pos atm neighbours =
     (let p = (case pos of None \<Rightarrow> replicate (length (vectors L)) 0 | Some q \<Rightarrow> q)
      in if list_ex (\<lambda>x. np_all_eq p x) (atom_positions L)
         then (Inl (DuplicatePosition p), L, counter)
         else
           (let ac = (case atm of AtomArg a \<Rightarrow> (a, counter) | NameArg nm \<Rightarrow> Atom_init counter nm);
                L1 = L\<lparr>atoms := atoms L @ [fst ac],
                        atom_positions := atom_positions L @ [p]\<rparr>;
                L2 = L1\<lparr>n_base := length (atom_positions L1)\<rparr>
            in if neighbours \<noteq> 0
               then (case calculate_distances L2 (Some neighbours) of
                       (Some e, L3) \<Rightarrow> (Inl e, L3, snd ac)
                     | (None, L3) \<Rightarrow> (Inr (fst ac), L3, snd ac))
               else (Inr (fst ac), L2, snd ac)))"

subsection \<open>Queries on the table of neighbours\<close>

definition not_configured :: error where
  "not_configured =
     ConfigurationError ''Base neighbours not configured.''
       ''Use the 'neighbours' keyword of 'add_atom' or call 'calculate_distances' after adding the atoms!''"

text \<open>
  \<open>idx_t[:-1] += n\<close> on a list \<open>idx_t\<close> and an array \<open>n\<close>: the slice is read, numpy adds
  \<open>n\<close> to it elementwise, and the sum is assigned back to the slice.
\<close>

definition slice_iadd :: "int list \<Rightarrow> int list \<Rightarrow> error + int list" where
  "slice_iadd idx_t n =
     (case np_add (butlast idx_t) n of
        Inl e \<Rightarrow> Inl e
      | Inr s \<Rightarrow> Inr (s @ drop (length idx_t - 1) idx_t))"

text \<open>\<open>get_neighbours(idx, dist_idx)\<close> for a flat index \<open>idx = [*n, alpha]\<close>.\<close>

definition get_neighbours :: "lattice \<Rightarrow> int list \<Rightarrow> int \<Rightarrow> error + int list list" where
  "get_neighbours L idx dist_idx =
     (if base_neighbors L = [] then Inl not_configured
      else
        (case py_get idx (- 1) of
           Inl e \<Rightarrow> Inl e
         | Inr alpha \<Rightarrow>
             (case py_get (base_neighbors L) alpha of
                Inl e \<Rightarrow> Inl e
              | Inr site \<Rightarrow>
                  (case py_get site dist_idx of
                     Inl e \<Rightarrow> Inl e
                   | Inr entries \<Rightarrow> mapE (\<lambda>entry. slice_iadd entry (butlast idx)) entries))))"

text \<open>\<open>get_neighbour_vectors(alpha, dist_idx, include_zero)\<close>.\<close>

definition get_neighbour_vectors ::
  "lattice \<Rightarrow> int \<Rightarrow> int \<Rightarrow> bool \<Rightarrow> error + real list list" where
  "get_neighbour_vectors L alpha dist_idx include_zero =
     (if base_neighbors L = [] then Inl not_configured
      else
        (case py_get (atom_positions L) alpha of
           Inl e \<Rightarrow> Inl e
         | Inr pos0 \<Rightarrow>
             (case py_get (base_neighbors L) alpha of
                Inl e \<Rightarrow> Inl e
              | Inr site \<Rightarrow>
                  (case py_get site dist_idx of
                     Inl e \<Rightarrow> Inl e
                   | Inr entries \<Rightarrow>
                       (case mapE (\<lambda>idx. case py_get idx (- 1) of
                                           Inl e \<Rightarrow> Inl e
                                         | Inr a \<Rightarrow>
                                             (case get_position L (Some (butlast idx)) a of
                                                Inl e \<Rightarrow> Inl e
                                              | Inr pos1 \<Rightarrow> np_sub pos1 pos0))
                                  entries of
                          Inl e \<Rightarrow> Inl e
                        | Inr vs \<Rightarrow>
                            Inr ((if include_zero then [replicate (dim L) 0] else []) @ vs))))))"

subsection \<open>The table of neighbours as shared objects\<close>

text \<open>
  The entries of the table are Python lists, objects that a caller could mutate. Here the
  objects live in a store, a list indexed by address; the table holds addresses.
  \<open>idx.copy()\<close> allocates a new object at the end of the store and the slice assignment
  writes to the object it is given.
\<close>

type_synonym addr = nat
type_synonym store = "int list list"

fun transform_entries :: "store \<Rightarrow> int list \<Rightarrow> addr list \<Rightarrow> (error + addr list) \<times> store" where
  "transform_entries h n [] = (Inr [], h)"
| "transform_entries h n (a # as) =
     (let idx_t = length h;
          h1 = h @ [h ! a]
      in case slice_iadd (h1 ! idx_t) n of
           Inl e \<Rightarrow> (Inl e, h1)
         | Inr v \<Rightarrow>
             (case transform_entries (h1[idx_t := v]) n as of
                (Inl e, h2) \<Rightarrow> (Inl e, h2)
              | (Inr ts, h2) \<Rightarrow> (Inr (idx_t # ts), h2)))"

definition get_neighbours_store ::
  "addr list list list \<Rightarrow> store \<Rightarrow> int list \<Rightarrow> int \<Rightarrow> (error + addr list) \<times> store" where
  "get_neighbours_store tbl h idx dist_idx =
     (if tbl = [] then (Inl not_configured, h)
      else
        (case py_get idx (- 1) of
           Inl e \<Rightarrow> (Inl e, h)
         | Inr alpha \<Rightarrow>
             (case py_get tbl alpha of
                Inl e \<Rightarrow> (Inl e, h)
              | Inr site \<Rightarrow>
                  (case py_get site dist_idx of
                     Inl e \<Rightarrow> (Inl e, h)
                   | Inr entries \<Rightarrow> transform_entries h (butlast idx) entries))))"

text \<open>A table is valid in a store when each of its addresses is allocated.\<close>

definition valid_table :: "store \<Rightarrow> addr list list list \<Rightarrow> bool" where
  "valid_table h tbl = list_all (list_all (list_all (\<lambda>a. a < length h))) tbl"

text \<open>The table as values: each address replaced by the object it refers to.\<close>

definition deref_table :: "store \<Rightarrow> addr list list list \<Rightarrow> int list list list list" where
  "deref_table h tbl = map (map (map (\<lambda>a. h ! a))) tbl"

text \<open>What a caller sees in a returned list of objects.\<close>

definition deref_result :: "store \<Rightarrow> error + addr list \<Rightarrow> error + int list list" where
  "deref_result h r = (case r of Inl e \<Rightarrow> Inl e | Inr ts \<Rightarrow> Inr (map (\<lambda>a. h ! a) ts))"

subsection \<open>A chain with one atom\<close>

text \<open>
  \<open>BravaisLattice.chain(1.0)\<close> as the constructor leaves it, and the same lattice after
  \<open>add_atom()\<close> with an atom named A.
\<close>

definition chain0 :: lattice where
  "chain0 = \<lparr>dim = 1, vectors = [[1]], n_base = 0, atoms = [], atom_positions = [],
             n_dist = 0, distances = [], base_neighbors = []\<rparr>"

definition atom_A :: atom where
  "atom_A = \<lparr>name = ''A'', col = None, size = 10\<rparr>"

definition chain1 :: lattice where
  "chain1 = \<lparr>dim = 1, vectors = [[1]], n_base = 1, atoms = [atom_A], atom_positions = [[0]],
             n_dist = 0, distances = [], base_neighbors = []\<rparr>"

text \<open>
  The chain after \<open>calculate_distances(1)\<close>: the state once the shells are stored, and the
  state the call returns with.
\<close>

definition chain1_shells :: lattice where
  "chain1_shells = chain1\<lparr>distances := [1, 2], n_dist := 1\<rparr>"

definition chain1_built :: lattice where
  "chain1_built = chain1_shells\<lparr>base_neighbors := [[[[- 1, 0], [1, 0]], [[- 2, 0], [2, 0]]]]\<rparr>"

text \<open>
  The table of the chain after \<open>calculate_distances(1)\<close>, as four objects in a store.
\<close>

definition chain_store :: store where
  "chain_store = [[- 1, 0], [1, 0], [- 2, 0], [2, 0]]"

definition chain_table :: "addr list list list" where
  "chain_table = [[[0, 1], [2, 3]]]"

subsection \<open>Outcomes\<close>

text \<open>The exception a fallible result stands for, if any.\<close>

definition raised :: "error + 'a \<Rightarrow> error option" where
  "raised r = (case r of Inl e \<Rightarrow> Some e | Inr v \<Rightarrow> None)"

text \<open>The outcome is a raised \<open>ConfigurationError\<close>.\<close>

definition configuration_error_raised :: "error option \<Rightarrow> bool" where
  "configuration_error_raised out = (case out of None \<Rightarrow> False | Some e \<Rightarrow> is_configuration_error e)"

subsection \<open>The shell list of the specification\<close>

text \<open>
  The wording of the specification (section 4.3, step 8), for comparison with the code: of
  the rounded distances, the unique nonzero ones in ascending order, cut to the first \<open>k\<close>.
\<close>

definition first_shells :: "nat \<Rightarrow> real list \<Rightarrow> real list" where
  "first_shells k rs = take k (sorted_list_of_set (set rs - {0}))"

section \<open>Properties\<close>

subsection \<open>Loops\<close>


lemma mapE_Inl: "mapE f xs = Inl e \<Longrightarrow> \<exists>x\<in>set xs. f x = Inl e"
  by (induction xs) (auto split: sum.splits)




lemma mapE_map: "mapE f (map g xs) = mapE (\<lambda>x. f (g x)) xs"
  by (induction xs) (auto split: sum.splits)

lemma filterE_Inl: "filterE p xs = Inl e \<Longrightarrow> \<exists>x\<in>set xs. p x = Inl e"
  by (induction xs) (auto split: sum.splits)



subsection \<open>Subscripting and ranges\<close>


lemma py_get_Inl: "py_get xs i = Inl e \<Longrightarrow> e = IndexError"
  by (auto simp: py_get_def split: if_splits)









subsection \<open>The chain, evaluated\<close>

lemma distance_1d: "distance [a] [b] = \<bar>a - b\<bar>"
  by (simp add: distance_def)

lemma rint_of_int: "rint (of_int k) = k"
  by (simp add: rint_def)

lemma np_round_0: "np_round k 0 = 0"
  by (simp add: np_round_def rint_def)

lemma np_round_1: "np_round k 1 = 1"
  using rint_of_int [of "10 ^ k"] by (simp add: np_round_def)

lemma np_round_numeral: "np_round k (numeral n) = numeral n"
  using rint_of_int [of "numeral n * 10 ^ k"] by (simp add: np_round_def)

lemmas np_round_simps = np_round_0 np_round_1 np_round_numeral

lemma chain1_fields:
  "dim chain1 = 1" "vectors chain1 = [[1]]" "n_base chain1 = 1" "atoms chain1 = [atom_A]"
  "atom_positions chain1 = [[0]]" "distances chain1 = []" "base_neighbors chain1 = []"
  by (simp_all add: chain1_def)

lemma chain1_shells_fields:
  "dim chain1_shells = 1" "vectors chain1_shells = [[1]]" "n_base chain1_shells = 1"
  "atoms chain1_shells = [atom_A]" "atom_positions chain1_shells = [[0]]"
  "distances chain1_shells = [1, 2]" "base_neighbors chain1_shells = []"
  by (simp_all add: chain1_shells_def chain1_def)

lemma chain1_expansion: "expansion chain1 (Some 1) = 3"
  by (simp add: expansion_def shell_count_def MIN_DISTS_def)

lemma chain1_cell_images: "cell_images chain1 3 = [[- 3], [- 2], [- 1], [0], [1], [2]]"
  by (simp add: cell_images_def chain1_fields vrange_def arange_def upto.simps)

lemma chain1_get_position: "get_position chain1 (Some [k]) 0 = Inr [of_int k]"
  by (simp add: get_position_def chain1_fields py_get_def matvec_def np_add_def np_zip_def)

lemma chain1_image_positions:
  "image_positions chain1 3 = Inr [[- 3], [- 2], [- 1], [0], [1], [2]]"
  by (simp add: image_positions_def chain1_cell_images py_range_def chain1_get_position
      chain1_fields)

lemma chain1_rounded_distances: "rounded_distances chain1 3 = Inr [3, 2, 1, 0, 1, 2]"
  by (simp add: rounded_distances_def chain1_image_positions distance_1d chain1_fields
      np_round_simps)

lemma chain1_shells_get_position: "get_position chain1_shells (Some [k]) 0 = Inr [of_int k]"
  by (simp add: get_position_def chain1_shells_fields py_get_def matvec_def np_add_def
      np_zip_def)


lemma chain1_shells_neighbours_0:
  "calculate_neighbours chain1_shells None 0 0 = Inr [([- 1], 0), ([1], 0)]"
  by (simp add: calculate_neighbours_def neighbour_range_def chain1_shells_fields py_range_def
      py_get_def arange_def upto.simps vrange_def site_distance_def chain1_shells_get_position
      distance_1d np_round_simps)

lemma chain1_shells_neighbours_1:
  "calculate_neighbours chain1_shells None 0 1 = Inr [([- 2], 0), ([2], 0)]"
  by (simp add: calculate_neighbours_def neighbour_range_def chain1_shells_fields py_range_def
      py_get_def arange_def upto.simps vrange_def site_distance_def chain1_shells_get_position
      distance_1d np_round_simps)

lemma chain1_calculate_distances: "calculate_distances chain1 (Some 1) = (None, chain1_built)"
proof -
  have "mapE (\<lambda>alpha. mapE (\<lambda>i_dist. calculate_neighbours_array chain1_shells None alpha i_dist)
                 (py_range (length (distances chain1_shells))))
          (py_range (n_base chain1_shells))
        = Inr [[[[- 1, 0], [1, 0]], [[- 2, 0], [2, 0]]]]"
    by (simp add: chain1_shells_fields py_range_def calculate_neighbours_array_def
        chain1_shells_neighbours_0 chain1_shells_neighbours_1 as_array_def)
  moreover have "chain1\<lparr>distances := take (nat (3 - 1)) [1, 2, 3], n_dist := 1\<rparr> = chain1_shells"
    by (simp add: chain1_shells_def)
  ultimately show ?thesis
    by (simp add: calculate_distances_def chain1_expansion shell_count_def
        chain1_rounded_distances py_remove_def chain1_fields chain1_built_def)
qed

subsection \<open>The cells enumerated by the distance calculation\<close>

text \<open>
  Claim C2. The claim has \<open>calculate_distances\<close> enumerate every translation vector with
  coordinates in the inclusive interval from \<open>- n_expand\<close> to \<open>n_expand\<close>. The code builds
  each axis with \<open>np.arange(-n, n)\<close>, which stops at \<open>n - 1\<close>: on the chain with one atom
  and one requested shell, \<open>n_expand\<close> is 3, the cells enumerated are those from \<open>- 3\<close> to
  \<open>2\<close>, and the cell at 3 is not among them. (\<open>set_cell_images\<close> has the general form.)
\<close>

theorem calculate_distances_misses_upper_cell:
  "expansion chain1 (Some 1) = 3 \<and>
   set (cell_images chain1 (expansion chain1 (Some 1))) = {[- 3], [- 2], [- 1], [0], [1], [2]} \<and>
   [3] \<notin> set (cell_images chain1 (expansion chain1 (Some 1)))"
  by (simp add: chain1_expansion chain1_cell_images)

subsection \<open>The candidates of the neighbour search\<close>




subsection \<open>Rounding and distances\<close>

lemma rint_nonneg: "0 \<le> x \<Longrightarrow> 0 \<le> rint x"
  by (simp add: rint_def Let_def)

lemma np_round_nonneg: "0 \<le> x \<Longrightarrow> 0 \<le> np_round k x"
  by (simp add: np_round_def rint_nonneg)

lemma distance_nonneg: "0 \<le> distance r1 r2"
  by (auto simp: distance_def intro!: sum_list_nonneg)


lemma rounded_distances_nonneg:
  assumes "rounded_distances L n = Inr rs" "r \<in> set rs"
  shows "0 \<le> r"
  using assms
  by (auto simp: rounded_distances_def np_round_nonneg distance_nonneg split: sum.splits)

subsection \<open>What a successful distance calculation stores\<close>

lemma expansion_pred: "expansion L num_dist - 1 = max (shell_count L num_dist) 2"
  by (simp add: expansion_def MIN_DISTS_def)

lemma calculate_distances_stored:
  assumes "calculate_distances L num_dist = (None, L')"
  shows "\<exists>rs. rounded_distances L (expansion L num_dist) = Inr rs \<and> 0 \<in> set rs \<and>
           distances L' = take (nat (expansion L num_dist - 1)) (remove1 0 (sort (remdups rs)))"
  using assms
  by (auto simp: calculate_distances_def Let_def py_remove_def split: if_splits sum.splits)

lemma unique_ascending: "remove1 0 (sort (remdups rs)) = sorted_list_of_set (set rs - {0})"
  by (simp add: sorted_list_of_set_remove sorted_list_of_set_sort_remdups)

lemma strict_sorted_shells: "sorted_wrt (<) (take k (remove1 0 (sort (remdups rs))))"
  by (simp add: unique_ascending)

lemma zero_not_shell: "(0::real) \<notin> set (take k (remove1 0 (sort (remdups rs))))"
proof
  assume "0 \<in> set (take k (remove1 0 (sort (remdups rs))))"
  then have "0 \<in> set (sorted_list_of_set (set rs - {0}))"
    unfolding unique_ascending by (rule in_set_takeD)
  then show False by simp
qed

lemma shell_in_rounded: "d \<in> set (take k (remove1 0 (sort (remdups rs)))) \<Longrightarrow> d \<in> set rs"
  unfolding unique_ascending by (auto dest: in_set_takeD)

text \<open>
  Claim C6. After every successful call of \<open>calculate_distances\<close> the stored shell
  distances are strictly increasing, each of them is strictly positive, and zero is not
  among them.
\<close>

theorem shell_distances_strictly_increasing_positive:
  assumes "calculate_distances L num_dist = (None, L')"
  shows "sorted_wrt (<) (distances L') \<and> (\<forall>d\<in>set (distances L'). 0 < d) \<and>
         0 \<notin> set (distances L')"
proof -
  from calculate_distances_stored [OF assms] obtain rs where
    rs: "rounded_distances L (expansion L num_dist) = Inr rs"
    and stored: "distances L' = take (nat (expansion L num_dist - 1)) (remove1 0 (sort (remdups rs)))"
    by blast
  have sorted: "sorted_wrt (<) (distances L')"
    unfolding stored by (rule strict_sorted_shells)
  have no_zero: "0 \<notin> set (distances L')"
    unfolding stored by (rule zero_not_shell)
  have "0 < d" if "d \<in> set (distances L')" for d
  proof -
    from that have "d \<in> set rs"
      unfolding stored by (rule shell_in_rounded)
    with rs have "0 \<le> d" by (rule rounded_distances_nonneg)
    moreover from that no_zero have "d \<noteq> 0" by auto
    ultimately show ?thesis by simp
  qed
  with sorted no_zero show ?thesis by blast
qed

theorem shell_distances_strictly_increasing_positive_witness:
  "calculate_distances chain1 (Some 1) = (None, chain1_built) \<and>
   sorted_wrt (<) (distances chain1_built) \<and> list_all (\<lambda>d. 0 < d) (distances chain1_built) \<and>
   0 \<notin> set (distances chain1_built)"
  using shell_distances_strictly_increasing_positive [OF chain1_calculate_distances]
  by (simp add: chain1_calculate_distances list_all_iff)

text \<open>
  Claim C1, as amended. After a successful \<open>calculate_distances(num_shells)\<close> the stored
  shell list is the first \<open>max(num_shells, 2)\<close> entries of the ascending sequence of the
  unique nonzero rounded distances: the slice is cut at \<open>n - 1\<close> with
  \<open>n = max(num_shells + 1, MIN_DISTS)\<close>. From two requested shells on this is the first
  \<open>num_shells\<close> entries, and when that many distances exist the list has exactly that
  length.
\<close>

theorem stored_shells_first_entries:
  assumes "calculate_distances L num_dist = (None, L')"
  shows "\<exists>rs. rounded_distances L (expansion L num_dist) = Inr rs \<and>
           distances L' = first_shells (nat (max (shell_count L num_dist) 2)) rs \<and>
           (2 \<le> shell_count L num_dist \<longrightarrow>
              distances L' = first_shells (nat (shell_count L num_dist)) rs) \<and>
           (nat (max (shell_count L num_dist) 2) \<le> card (set rs - {0}) \<longrightarrow>
              length (distances L') = nat (max (shell_count L num_dist) 2))"
proof -
  from calculate_distances_stored [OF assms] obtain rs where
    rs: "rounded_distances L (expansion L num_dist) = Inr rs"
    and stored: "distances L' = take (nat (expansion L num_dist - 1)) (remove1 0 (sort (remdups rs)))"
    by blast
  have eq: "distances L' = first_shells (nat (max (shell_count L num_dist) 2)) rs"
    by (simp add: stored expansion_pred unique_ascending first_shells_def)
  have "distances L' = first_shells (nat (shell_count L num_dist)) rs"
    if "2 \<le> shell_count L num_dist"
    using that eq by (simp add: max_def)
  moreover have "length (distances L') = nat (max (shell_count L num_dist) 2)"
    if "nat (max (shell_count L num_dist) 2) \<le> card (set rs - {0})"
    using that by (simp add: eq first_shells_def)
  ultimately show ?thesis using rs eq by blast
qed

theorem stored_shells_first_entries_witness:
  "calculate_distances chain1 (Some 1) = (None, chain1_built) \<and>
   (\<exists>rs. rounded_distances chain1 (expansion chain1 (Some 1)) = Inr rs \<and>
      distances chain1_built = first_shells (nat (max (shell_count chain1 (Some 1)) 2)) rs \<and>
      (2 \<le> shell_count chain1 (Some 1) \<longrightarrow>
         distances chain1_built = first_shells (nat (shell_count chain1 (Some 1))) rs) \<and>
      (nat (max (shell_count chain1 (Some 1)) 2) \<le> card (set rs - {0}) \<longrightarrow>
         length (distances chain1_built) = nat (max (shell_count chain1 (Some 1)) 2)))"
  using stored_shells_first_entries [OF chain1_calculate_distances]
  by (simp add: chain1_calculate_distances)

lemma first_shells_code: "first_shells k rs = take k (remove1 0 (sort (remdups rs)))"
  by (simp add: first_shells_def unique_ascending)

text \<open>
  The claim as stated fails on the chain with one atom and one requested shell: the first
  entry of the sequence is the list \<open>[1]\<close>, and the call stores \<open>[1, 2]\<close>.
\<close>

theorem stored_shells_first_entries_counterexample:
  "calculate_distances chain1 (Some 1) = (None, chain1_built) \<and>
   rounded_distances chain1 (expansion chain1 (Some 1)) = Inr [3, 2, 1, 0, 1, 2] \<and>
   first_shells 1 [3, 2, 1, 0, 1, 2] = [1] \<and>
   distances chain1_built = [1, 2]"
  by (simp add: chain1_calculate_distances chain1_expansion chain1_rounded_distances
      first_shells_code chain1_built_def chain1_shells_def)

subsection \<open>Adding an atom at an occupied position\<close>

lemma np_all_eq_refl: "np_all_eq p p"
proof -
  have "list_all id (map2 (=) p p)"
    by (induction p) auto
  then show ?thesis by (simp add: np_all_eq_def np_zip_def)
qed

lemma chain0_add_atom: "add_atom chain0 0 None (NameArg (Some ''A'')) 0 = (Inr atom_A, chain1, 1)"
  by (simp add: add_atom_def chain0_def chain1_def np_all_eq_def Atom_init_def atom_A_def)

text \<open>
  Claim C7. Adding an atom at a position that is already in the basis (the given position,
  or the origin of the cell when none is given) raises the duplicate-position error and
  leaves everything as it was: the lattice returned is the lattice passed in, with its
  atom list, position list and atom count, and the counter of \<open>Atom\<close> is not advanced.
\<close>

theorem add_atom_duplicate_position:
  assumes "p = (case pos of None \<Rightarrow> replicate (length (vectors L)) 0 | Some q \<Rightarrow> q)"
    and "p \<in> set (atom_positions L)"
  shows "add_atom L counter pos atm neighbours = (Inl (DuplicatePosition p), L, counter)"
proof -
  from assms(2) have "list_ex (\<lambda>x. np_all_eq p x) (atom_positions L)"
    unfolding list_ex_iff using np_all_eq_refl by blast
  with assms(1) show ?thesis
    by (simp add: add_atom_def)
qed

theorem add_atom_duplicate_position_witness:
  "[0] = (case Some [0] of None \<Rightarrow> replicate (length (vectors chain1)) 0 | Some q \<Rightarrow> q) \<and>
   [0] \<in> set (atom_positions chain1) \<and>
   add_atom chain1 1 (Some [0]) (NameArg None) 1 = (Inl (DuplicatePosition [0]), chain1, 1)"
  using add_atom_duplicate_position
    [where p = "[0]" and pos = "Some [0]" and L = chain1 and counter = 1
       and atm = "NameArg None" and neighbours = 1]
  by (simp add: chain1_fields)

subsection \<open>Which exceptions can be raised\<close>

lemma np_zip_Inl: "np_zip f xs ys = Inl e \<Longrightarrow> e = ShapeMismatch"
  by (auto simp: np_zip_def split: if_splits)

lemma matvec_Inl: "matvec A n = Inl e \<Longrightarrow> e = ShapeMismatch"
  by (auto simp: matvec_def split: if_splits)

lemma get_position_Inl: "get_position L n alpha = Inl e \<Longrightarrow> \<not> is_configuration_error e"
  by (auto simp: get_position_def np_add_def split: sum.splits option.splits
      dest!: py_get_Inl np_zip_Inl matvec_Inl)

lemma site_distance_Inl: "site_distance L idx0 idx1 = Inl e \<Longrightarrow> \<not> is_configuration_error e"
  by (auto simp: site_distance_def split: sum.splits dest: get_position_Inl)

lemma neighbour_range_Inl: "neighbour_range L n i = Inl e \<Longrightarrow> \<not> is_configuration_error e"
  by (auto simp: neighbour_range_def Let_def split: sum.splits dest!: mapE_Inl py_get_Inl)

lemma calculate_neighbours_Inl:
  "calculate_neighbours L n alpha i = Inl e \<Longrightarrow> \<not> is_configuration_error e"
  by (auto simp: calculate_neighbours_def Let_def split: sum.splits
      dest!: py_get_Inl filterE_Inl dest: neighbour_range_Inl site_distance_Inl)

lemma calculate_neighbours_array_Inl:
  "calculate_neighbours_array L n alpha i = Inl e \<Longrightarrow> \<not> is_configuration_error e"
  by (auto simp: calculate_neighbours_array_def split: sum.splits dest: calculate_neighbours_Inl)

lemma rounded_distances_Inl: "rounded_distances L n = Inl e \<Longrightarrow> \<not> is_configuration_error e"
  by (auto simp: rounded_distances_def image_positions_def split: sum.splits
      dest!: mapE_Inl dest: get_position_Inl)

lemma build_table_Inl:
  assumes "mapE (\<lambda>alpha. mapE (\<lambda>i_dist. calculate_neighbours_array L None alpha i_dist) is) as
             = Inl e"
  shows "\<not> is_configuration_error e"
proof -
  from assms obtain alpha where
    "mapE (\<lambda>i_dist. calculate_neighbours_array L None alpha i_dist) is = Inl e"
    by (auto dest: mapE_Inl)
  then obtain i where "calculate_neighbours_array L None alpha i = Inl e"
    by (auto dest: mapE_Inl)
  then show ?thesis by (rule calculate_neighbours_array_Inl)
qed

lemma calculate_distances_raised:
  assumes "atoms L \<noteq> []" "fst (calculate_distances L num_dist) = Some e"
  shows "\<not> is_configuration_error e"
  using assms
  by (auto simp: calculate_distances_def Let_def py_remove_def
      split: sum.splits if_splits dest: rounded_distances_Inl build_table_Inl)

lemma slice_iadd_Inl: "slice_iadd idx_t n = Inl e \<Longrightarrow> e = ShapeMismatch"
  by (auto simp: slice_iadd_def np_add_def split: sum.splits dest: np_zip_Inl)

lemma get_neighbours_raised:
  assumes "base_neighbors L \<noteq> []" "get_neighbours L idx dist_idx = Inl e"
  shows "\<not> is_configuration_error e"
  using assms
  by (auto simp: get_neighbours_def split: sum.splits dest!: py_get_Inl mapE_Inl slice_iadd_Inl)

lemma get_neighbour_vectors_raised:
  assumes "base_neighbors L \<noteq> []" "get_neighbour_vectors L alpha dist_idx include_zero = Inl e"
  shows "\<not> is_configuration_error e"
proof -
  have step: "\<not> is_configuration_error e'"
    if "(case py_get idx (- 1) of Inl e \<Rightarrow> Inl e
         | Inr a \<Rightarrow> (case get_position L (Some (butlast idx)) a of Inl e \<Rightarrow> Inl e
                      | Inr pos1 \<Rightarrow> np_sub pos1 pos0)) = Inl e'" for idx pos0 e'
    using that
    by (auto simp: np_sub_def split: sum.splits dest!: py_get_Inl np_zip_Inl dest: get_position_Inl)
  from assms show ?thesis
    by (auto simp: get_neighbour_vectors_def split: sum.splits dest!: py_get_Inl mapE_Inl dest: step)
qed

text \<open>
  Claim C8. \<open>calculate_distances\<close> raises a configuration error exactly when the list of
  atoms is empty, \<open>get_neighbours\<close> and \<open>get_neighbour_vectors\<close> exactly when the table of
  neighbours is empty (it is empty until \<open>calculate_distances\<close> has built it, see
  \<open>calculate_distances_total\<close>); the error carries a message and a hint that names the
  missing step.
\<close>

theorem configuration_errors:
  "configuration_error_raised (fst (calculate_distances L num_dist)) = (atoms L = []) \<and>
   (atoms L = [] \<longrightarrow>
      calculate_distances L num_dist =
        (Some (ConfigurationError ''No atoms found in the lattice!''
                 ''Use 'add_atom' to add an 'Atom'-object''), L)) \<and>
   configuration_error_raised (raised (get_neighbours L idx dist_idx)) = (base_neighbors L = []) \<and>
   configuration_error_raised (raised (get_neighbour_vectors L alpha dist_idx include_zero))
     = (base_neighbors L = []) \<and>
   (base_neighbors L = [] \<longrightarrow>
      get_neighbours L idx dist_idx = Inl not_configured \<and>
      get_neighbour_vectors L alpha dist_idx include_zero = Inl not_configured) \<and>
   not_configured =
     ConfigurationError ''Base neighbours not configured.''
       ''Use the 'neighbours' keyword of 'add_atom' or call 'calculate_distances' after adding the atoms!''"
proof -
  have cd_empty: "calculate_distances L num_dist =
        (Some (ConfigurationError ''No atoms found in the lattice!''
                 ''Use 'add_atom' to add an 'Atom'-object''), L)" if "atoms L = []"
    using that by (simp add: calculate_distances_def)
  have cd: "configuration_error_raised (fst (calculate_distances L num_dist)) = (atoms L = [])"
  proof (cases "atoms L = []")
    case True
    then show ?thesis by (simp add: cd_empty configuration_error_raised_def)
  next
    case False
    then show ?thesis
      using calculate_distances_raised [of L num_dist]
      by (auto simp: configuration_error_raised_def split: option.splits)
  qed
  have gn_empty: "get_neighbours L idx dist_idx = Inl not_configured" if "base_neighbors L = []"
    using that by (simp add: get_neighbours_def)
  have gv_empty: "get_neighbour_vectors L alpha dist_idx include_zero = Inl not_configured"
    if "base_neighbors L = []"
    using that by (simp add: get_neighbour_vectors_def)
  have gn: "configuration_error_raised (raised (get_neighbours L idx dist_idx))
              = (base_neighbors L = [])"
  proof (cases "base_neighbors L = []")
    case True
    then show ?thesis
      by (simp add: gn_empty configuration_error_raised_def raised_def not_configured_def)
  next
    case False
    then show ?thesis
      using get_neighbours_raised [of L idx dist_idx]
      by (auto simp: configuration_error_raised_def raised_def split: sum.splits)
  qed
  have gv: "configuration_error_raised (raised (get_neighbour_vectors L alpha dist_idx include_zero))
              = (base_neighbors L = [])"
  proof (cases "base_neighbors L = []")
    case True
    then show ?thesis
      by (simp add: gv_empty configuration_error_raised_def raised_def not_configured_def)
  next
    case False
    then show ?thesis
      using get_neighbour_vectors_raised [of L alpha dist_idx include_zero]
      by (auto simp: configuration_error_raised_def raised_def split: sum.splits)
  qed
  show ?thesis
    using cd cd_empty gn gv gn_empty gv_empty by (simp add: not_configured_def)
qed

theorem configuration_errors_witness:
  "atoms chain0 = [] \<and> base_neighbors chain0 = [] \<and>
   configuration_error_raised (fst (calculate_distances chain0 (Some 1))) \<and>
   calculate_distances chain0 (Some 1) =
     (Some (ConfigurationError ''No atoms found in the lattice!''
              ''Use 'add_atom' to add an 'Atom'-object''), chain0) \<and>
   configuration_error_raised (raised (get_neighbours chain0 [0, 0] 0)) \<and>
   configuration_error_raised (raised (get_neighbour_vectors chain0 0 0 False)) \<and>
   get_neighbours chain0 [0, 0] 0 = Inl not_configured \<and>
   get_neighbour_vectors chain0 0 0 False = Inl not_configured \<and>
   atoms chain1_built \<noteq> [] \<and> base_neighbors chain1_built \<noteq> [] \<and>
   \<not> configuration_error_raised (fst (calculate_distances chain1_built (Some 1))) \<and>
   \<not> configuration_error_raised (raised (get_neighbours chain1_built [0, 0] 0)) \<and>
   \<not> configuration_error_raised (raised (get_neighbour_vectors chain1_built 0 0 False))"
proof -
  have empty: "atoms chain0 = []" "base_neighbors chain0 = []"
    by (simp_all add: chain0_def)
  have built: "atoms chain1_built \<noteq> []" "base_neighbors chain1_built \<noteq> []"
    by (simp_all add: chain1_built_def chain1_shells_def chain1_def)
  from configuration_errors [of chain0 "Some 1" "[0, 0]" 0 0 False]
    configuration_errors [of chain1_built "Some 1" "[0, 0]" 0 0 False] empty built
  show ?thesis by blast
qed

subsection \<open>The shapes are kept\<close>

text \<open>
  \<open>well_shaped\<close> holds of the chain as the constructor leaves it, and \<open>add_atom\<close> with a
  position of the right size and \<open>calculate_distances\<close> keep it.
\<close>

lemma chain0_well_shaped: "well_shaped chain0"
  by (simp add: well_shaped_def chain0_def)

lemma calculate_distances_shape:
  "well_shaped (snd (calculate_distances L num_dist)) = well_shaped L"
  by (simp add: calculate_distances_def Let_def well_shaped_def split: sum.splits)

lemma add_atom_shape:
  assumes "well_shaped L"
    and "case pos of None \<Rightarrow> True | Some p \<Rightarrow> length p = dim L"
  shows "well_shaped (fst (snd (add_atom L counter pos atm neighbours)))"
proof -
  let ?p = "case pos of None \<Rightarrow> replicate (length (vectors L)) 0 | Some q \<Rightarrow> q"
  let ?a = "fst (case atm of AtomArg a \<Rightarrow> (a, counter) | NameArg nm \<Rightarrow> Atom_init counter nm)"
  let ?L2 = "L\<lparr>atoms := atoms L @ [?a], atom_positions := atom_positions L @ [?p],
               n_base := Suc (length (atom_positions L))\<rparr>"
  from assms have "length ?p = dim L"
    by (simp add: well_shaped_def split: option.splits)
  with assms(1) have shape: "well_shaped ?L2"
    by (simp add: well_shaped_def)
  show ?thesis
  proof (cases "list_ex (\<lambda>x. np_all_eq ?p x) (atom_positions L)")
    case True
    with assms(1) show ?thesis
      by (simp add: add_atom_def)
  next
    case free: False
    show ?thesis
    proof (cases "neighbours = 0")
      case True
      with free shape show ?thesis
        by (simp add: add_atom_def Let_def)
    next
      case False
      obtain out L3 where cd: "calculate_distances ?L2 (Some neighbours) = (out, L3)"
        by (cases "calculate_distances ?L2 (Some neighbours)")
      with calculate_distances_shape [of ?L2 "Some neighbours"] shape have "well_shaped L3"
        by simp
      with free False cd show ?thesis
        by (cases out) (simp_all add: add_atom_def Let_def)
    qed
  qed
qed

subsection \<open>Positions in a well-shaped lattice\<close>







subsection \<open>The distance calculation on a well-shaped lattice\<close>










subsection \<open>The table of neighbours in the store\<close>

lemma mapE_cong: "(\<And>x. x \<in> set xs \<Longrightarrow> f x = g x) \<Longrightarrow> mapE f xs = mapE g xs"
  by (induction xs) (simp_all split: sum.splits)

lemma py_get_map:
  "py_get (map f xs) i = (case py_get xs i of Inl e \<Rightarrow> Inl e | Inr x \<Rightarrow> Inr (f x))"
proof -
  have "nat (int (length xs) + i) < length xs" if "i < 0" "- int (length xs) \<le> i"
    using that by linarith
  moreover have "nat i < length xs" if "0 \<le> i" "i < int (length xs)"
    using that by linarith
  ultimately show ?thesis
    by (simp add: py_get_def)
qed

lemma py_get_in_set: "py_get xs i = Inr x \<Longrightarrow> x \<in> set xs"
  by (auto simp: py_get_def split: if_splits)

lemma transform_entries_frame:
  "transform_entries h n as = (r, h') \<Longrightarrow> length h \<le> length h' \<and> take (length h) h' = h"
proof (induction as arbitrary: h r h')
  case Nil
  then show ?case by simp
next
  case (Cons a as)
  let ?h1 = "h @ [h ! a]"
  show ?case
  proof (cases "slice_iadd (?h1 ! length h) n")
    case (Inl e)
    with Cons.prems show ?thesis by (auto simp: Let_def)
  next
    case (Inr v)
    let ?h2 = "?h1[length h := v]"
    obtain r' h'' where rec: "transform_entries ?h2 n as = (r', h'')"
      by (cases "transform_entries ?h2 n as")
    with Cons.prems Inr have h': "h' = h''"
      by (auto simp: Let_def split: sum.splits)
    from Cons.IH [OF rec] have len: "length ?h2 \<le> length h''" and tk: "take (length ?h2) h'' = ?h2"
      by simp_all
    have "take (length h) h'' = take (length h) (take (length ?h2) h'')"
      by (simp add: min_def)
    also have "\<dots> = take (length h) ?h2"
      by (simp only: tk)
    also have "\<dots> = h"
      by simp
    finally show ?thesis
      using len h' by simp
  qed
qed

lemma transform_entries_result:
  assumes "list_all (\<lambda>a. a < length h) as" "transform_entries h n as = (r, h')"
  shows "deref_result h' r = mapE (\<lambda>a. slice_iadd (h ! a) n) as \<and>
         (\<forall>ts. r = Inr ts \<longrightarrow> list_all (\<lambda>t. length h \<le> t \<and> t < length h') ts)"
  using assms
proof (induction as arbitrary: h r h')
  case Nil
  then show ?case by (auto simp: deref_result_def)
next
  case (Cons a as)
  let ?h1 = "h @ [h ! a]"
  from Cons.prems(1) have a: "a < length h" and as: "list_all (\<lambda>a. a < length h) as"
    by simp_all
  have h1: "?h1 ! length h = h ! a"
    by simp
  show ?case
  proof (cases "slice_iadd (h ! a) n")
    case (Inl e)
    with Cons.prems(2) h1 show ?thesis
      by (auto simp: Let_def deref_result_def)
  next
    case (Inr v)
    let ?h2 = "?h1[length h := v]"
    obtain r' h'' where rec: "transform_entries ?h2 n as = (r', h'')"
      by (cases "transform_entries ?h2 n as")
    from as have as2: "list_all (\<lambda>a. a < length ?h2) as"
      by (auto simp: list_all_iff)
    from Cons.IH [OF as2 rec] have
      res: "deref_result h'' r' = mapE (\<lambda>a. slice_iadd (?h2 ! a) n) as"
      and fresh: "\<And>ts. r' = Inr ts \<Longrightarrow> list_all (\<lambda>t. length ?h2 \<le> t \<and> t < length h'') ts"
      by simp_all
    have "mapE (\<lambda>a. slice_iadd (?h2 ! a) n) as = mapE (\<lambda>a. slice_iadd (h ! a) n) as"
    proof (rule mapE_cong)
      fix x assume "x \<in> set as"
      with as have "x < length h" by (simp add: list_all_iff)
      then show "slice_iadd (?h2 ! x) n = slice_iadd (h ! x) n"
        by (simp add: nth_append)
    qed
    with res have res': "deref_result h'' r' = mapE (\<lambda>a. slice_iadd (h ! a) n) as"
      by simp
    from transform_entries_frame [OF rec] have len: "length ?h2 \<le> length h''"
      and tk: "take (length ?h2) h'' = ?h2"
      by simp_all
    have "h'' ! length h = take (length ?h2) h'' ! length h"
      by simp
    also have "\<dots> = v"
      by (simp only: tk) simp
    finally have v: "h'' ! length h = v" .
    show ?thesis
    proof (cases r')
      case (Inl e)
      with res' have "mapE (\<lambda>a. slice_iadd (h ! a) n) as = Inl e"
        by (simp add: deref_result_def)
      moreover from Cons.prems(2) \<open>slice_iadd (h ! a) n = Inr v\<close> rec h1 Inl have "r = Inl e"
        by (auto simp: Let_def)
      ultimately show ?thesis
        using \<open>slice_iadd (h ! a) n = Inr v\<close> by (simp add: deref_result_def)
    next
      case (Inr ts)
      with Cons.prems(2) \<open>slice_iadd (h ! a) n = Inr v\<close> rec h1
      have r: "r = Inr (length h # ts)" and h': "h' = h''"
        by (auto simp: Let_def)
      from fresh [OF Inr] have "list_all (\<lambda>t. length h \<le> t \<and> t < length h'') ts"
        by (auto simp: list_all_iff)
      with len have fresh': "list_all (\<lambda>t. length h \<le> t \<and> t < length h'') (length h # ts)"
        by simp
      from res' Inr have "mapE (\<lambda>a. slice_iadd (h ! a) n) as = Inr (map (\<lambda>a. h'' ! a) ts)"
        by (simp add: deref_result_def)
      with \<open>slice_iadd (h ! a) n = Inr v\<close> v r h' fresh' show ?thesis
        by (simp add: deref_result_def)
    qed
  qed
qed

lemma get_neighbours_store_frame:
  assumes "get_neighbours_store tbl h idx dist_idx = (r, h')"
  shows "length h \<le> length h' \<and> take (length h) h' = h"
  using assms
  by (auto simp: get_neighbours_store_def split: if_splits sum.splits
      dest: transform_entries_frame)

lemma valid_table_entries:
  assumes "valid_table h tbl" "py_get tbl alpha = Inr site" "py_get site dist_idx = Inr entries"
  shows "list_all (\<lambda>a. a < length h) entries"
proof -
  from assms(2,3) have "site \<in> set tbl" "entries \<in> set site"
    by (auto dest: py_get_in_set)
  with assms(1) show ?thesis
    by (auto simp: valid_table_def list_all_iff)
qed

lemma get_neighbours_store_refines:
  assumes "valid_table h tbl" "get_neighbours_store tbl h idx dist_idx = (r, h')"
  shows "deref_result h' r = get_neighbours (L\<lparr>base_neighbors := deref_table h tbl\<rparr>) idx dist_idx"
proof -
  let ?res = "get_neighbours_store tbl h idx dist_idx"
  let ?L = "L\<lparr>base_neighbors := deref_table h tbl\<rparr>"
  have "deref_result (snd ?res) (fst ?res) = get_neighbours ?L idx dist_idx"
  proof (cases "tbl = []")
    case True
    then show ?thesis
      by (simp add: get_neighbours_store_def get_neighbours_def deref_table_def deref_result_def)
  next
    case False
    show ?thesis
    proof (cases "py_get idx (- 1)")
      case (Inl e)
      with False show ?thesis
        by (simp add: get_neighbours_store_def get_neighbours_def deref_table_def deref_result_def)
    next
      case alpha: (Inr alpha)
      show ?thesis
      proof (cases "py_get tbl alpha")
        case (Inl e)
        with False alpha show ?thesis
          by (simp add: get_neighbours_store_def get_neighbours_def deref_table_def
              deref_result_def py_get_map)
      next
        case site: (Inr site)
        show ?thesis
        proof (cases "py_get site dist_idx")
          case (Inl e)
          with False alpha site show ?thesis
            by (simp add: get_neighbours_store_def get_neighbours_def deref_table_def
                deref_result_def py_get_map)
        next
          case entries: (Inr entries)
          let ?tr = "transform_entries h (butlast idx) entries"
          from False alpha site entries have res: "?res = ?tr"
            by (simp add: get_neighbours_store_def)
          from valid_table_entries [OF assms(1) site entries]
          have "list_all (\<lambda>a. a < length h) entries" .
          from transform_entries_result [OF this, of "butlast idx" "fst ?tr" "snd ?tr"]
          have "deref_result (snd ?tr) (fst ?tr)
                  = mapE (\<lambda>a. slice_iadd (h ! a) (butlast idx)) entries"
            by simp
          with False alpha site entries res show ?thesis
            by (simp add: get_neighbours_def deref_table_def py_get_map mapE_map)
        qed
      qed
    qed
  qed
  with assms(2) show ?thesis by simp
qed

lemma deref_table_frame:
  assumes "valid_table h tbl" "length h \<le> length h'" "take (length h) h' = h"
  shows "deref_table h' tbl = deref_table h tbl \<and> valid_table h' tbl"
proof -
  have "h' ! a = h ! a" if "a < length h" for a
  proof -
    from that have "h' ! a = take (length h) h' ! a" by simp
    with assms(3) show ?thesis by simp
  qed
  moreover have "a < length h'" if "a < length h" for a
    using that assms(2) by simp
  ultimately show ?thesis
    using assms(1) by (auto simp: deref_table_def valid_table_def list_all_iff)
qed

text \<open>
  Claim C10. \<open>get_neighbours\<close> works on a copy of each stored entry: whatever the call
  does, the objects that were in the store before it are unchanged, so the table reads the
  same after the call as before. What the caller receives is what the value-level
  \<open>get_neighbours\<close> computes from the table, and a second call with the same arguments
  returns an equal result.
\<close>

theorem get_neighbours_leaves_table:
  assumes "valid_table h tbl"
    and "get_neighbours_store tbl h idx dist_idx = (r1, h1)"
    and "get_neighbours_store tbl h1 idx dist_idx = (r2, h2)"
  shows "take (length h) h1 = h \<and>
         deref_table h1 tbl = deref_table h tbl \<and>
         deref_table h2 tbl = deref_table h tbl \<and>
         deref_result h1 r1 = get_neighbours (L\<lparr>base_neighbors := deref_table h tbl\<rparr>) idx dist_idx \<and>
         deref_result h2 r2 = deref_result h1 r1"
proof -
  from get_neighbours_store_frame [OF assms(2)] have
    f1: "length h \<le> length h1" "take (length h) h1 = h"
    by simp_all
  from deref_table_frame [OF assms(1) f1] have
    t1: "deref_table h1 tbl = deref_table h tbl" and v1: "valid_table h1 tbl"
    by simp_all
  from get_neighbours_store_frame [OF assms(3)] have
    f2: "length h1 \<le> length h2" "take (length h1) h2 = h1"
    by simp_all
  from deref_table_frame [OF v1 f2] t1 have t2: "deref_table h2 tbl = deref_table h tbl"
    by simp
  from get_neighbours_store_refines [OF assms(1,2), of L] have
    r1: "deref_result h1 r1 = get_neighbours (L\<lparr>base_neighbors := deref_table h tbl\<rparr>) idx dist_idx" .
  from get_neighbours_store_refines [OF v1 assms(3), of L] t1 have
    "deref_result h2 r2 = get_neighbours (L\<lparr>base_neighbors := deref_table h tbl\<rparr>) idx dist_idx"
    by simp
  with f1 t1 t2 r1 show ?thesis by simp
qed

lemma chain_store_call_1:
  "get_neighbours_store chain_table chain_store [5, 0] 0 =
     (Inr [4, 5], chain_store @ [[4, 0], [6, 0]])"
  by (simp add: get_neighbours_store_def chain_table_def chain_store_def py_get_def
      slice_iadd_def np_add_def np_zip_def Let_def)

lemma chain_store_call_2:
  "get_neighbours_store chain_table (chain_store @ [[4, 0], [6, 0]]) [5, 0] 0 =
     (Inr [6, 7], chain_store @ [[4, 0], [6, 0], [4, 0], [6, 0]])"
  by (simp add: get_neighbours_store_def chain_table_def chain_store_def py_get_def
      slice_iadd_def np_add_def np_zip_def Let_def)

theorem get_neighbours_leaves_table_witness:
  "valid_table chain_store chain_table \<and>
   get_neighbours_store chain_table chain_store [5, 0] 0 =
     (Inr [4, 5], chain_store @ [[4, 0], [6, 0]]) \<and>
   get_neighbours_store chain_table (chain_store @ [[4, 0], [6, 0]]) [5, 0] 0 =
     (Inr [6, 7], chain_store @ [[4, 0], [6, 0], [4, 0], [6, 0]]) \<and>
   take (length chain_store) (chain_store @ [[4, 0], [6, 0]]) = chain_store \<and>
   deref_table (chain_store @ [[4, 0], [6, 0]]) chain_table = deref_table chain_store chain_table \<and>
   deref_result (chain_store @ [[4, 0], [6, 0]]) (Inr [4, 5]) = get_neighbours chain1_built [5, 0] 0 \<and>
   deref_result (chain_store @ [[4, 0], [6, 0], [4, 0], [6, 0]]) (Inr [6, 7]) =
     deref_result (chain_store @ [[4, 0], [6, 0]]) (Inr [4, 5])"
proof -
  have valid: "valid_table chain_store chain_table"
    by (simp add: valid_table_def chain_store_def chain_table_def)
  have built: "chain1_built\<lparr>base_neighbors := deref_table chain_store chain_table\<rparr> = chain1_built"
    by (simp add: chain1_built_def deref_table_def chain_store_def chain_table_def)
  from get_neighbours_leaves_table [OF valid chain_store_call_1 chain_store_call_2, of chain1_built]
    valid chain_store_call_1 chain_store_call_2 built
  show ?thesis by simp
qed

end
